theory Spec2Isabelle
  imports Complex_Main "HOL-Library.Sublist"
begin

section \<open>Strings and the regular expressions of the sources\<close>

text \<open>
  A JavaScript string is modelled as a \<^typ>\<open>string\<close>, one \<^typ>\<open>char\<close> per character,
  for the characters up to U+00FF. \<open>toLowerCase\<close> maps \<open>A\<close>..\<open>Z\<close> to \<open>a\<close>..\<open>z\<close>
  and leaves every other character alone: the sources only ever search the lowered text
  for ASCII words, and lowering a character above U+007F never gives an ASCII one. The
  classes \<open>\d\<close>, \<open>\w\<close>, \<open>[A-Z]\<close> are the ASCII ones (as they are in a JavaScript
  regular expression without the \<open>u\<close> flag), and \<open>\s\<close> is the ASCII white space and
  the no-break space U+00A0. A JavaScript \<open>number\<close> is modelled as a
  \<^typ>\<open>real\<close>: arithmetic is exact, the rounding of IEEE doubles is not modelled.
\<close>

definition toLowerChar :: "char \<Rightarrow> char" where
  "toLowerChar c =
     (case map_of (zip ''ABCDEFGHIJKLMNOPQRSTUVWXYZ'' ''abcdefghijklmnopqrstuvwxyz'') c of
        Some l \<Rightarrow> l
      | None \<Rightarrow> c)"

definition toLowerCase :: "string \<Rightarrow> string" where
  "toLowerCase s = map toLowerChar s"

text \<open>\<open>s.includes(w)\<close>: \<open>w\<close> occurs in \<open>s\<close> as a contiguous substring.\<close>

fun str_includes :: "string \<Rightarrow> string \<Rightarrow> bool" where
  "str_includes [] w = (w = [])"
| "str_includes (c # cs) w = (prefix w (c # cs) \<or> str_includes cs w)"

text \<open>\<open>s.indexOf(w)\<close>, with \<open>None\<close> for the source's \<open>-1\<close>.\<close>

fun indexOf :: "string \<Rightarrow> string \<Rightarrow> nat option" where
  "indexOf [] w = (if w = [] then Some 0 else None)"
| "indexOf (c # cs) w = (if prefix w (c # cs) then Some 0 else map_option Suc (indexOf cs w))"

text \<open>\<open>xs.join(sep)\<close> on an array of strings.\<close>

fun join :: "string \<Rightarrow> string list \<Rightarrow> string" where
  "join sep [] = []"
| "join sep [x] = x"
| "join sep (x # y # ys) = x @ sep @ join sep (y # ys)"

definition isDigit :: "char \<Rightarrow> bool" where
  "isDigit c = (c \<in> set ''0123456789'')"

definition isUpper :: "char \<Rightarrow> bool" where
  "isUpper c = (c \<in> set ''ABCDEFGHIJKLMNOPQRSTUVWXYZ'')"

definition isWordChar :: "char \<Rightarrow> bool" where
  "isWordChar c =
     (c \<in> set ''ABCDEFGHIJKLMNOPQRSTUVWXYZabcdefghijklmnopqrstuvwxyz0123456789_'')"

definition isSpace :: "char \<Rightarrow> bool" where
  "isSpace c =
     (c \<in> set [CHR '' '', CHR 0x09, CHR 0x0A, CHR 0x0B, CHR 0x0C, CHR 0x0D, CHR 0xA0])"

text \<open>
  \<open>/p1|p2|...|pn/.test(s)\<close> for literal alternatives: one of them occurs in \<open>s\<close>.
  With the \<open>i\<close> flag the comparison ignores the case of both sides.
\<close>

definition testAny :: "string list \<Rightarrow> string \<Rightarrow> bool" where
  "testAny pats s = list_ex (str_includes s) pats"

definition testAnyI :: "string list \<Rightarrow> string \<Rightarrow> bool" where
  "testAnyI pats s = list_ex (\<lambda>p. str_includes (toLowerCase s) (toLowerCase p)) pats"

text \<open>\<open>/\d+/.test(s)\<close>: some character of \<open>s\<close> is a digit.\<close>

definition testDigits :: "string \<Rightarrow> bool" where
  "testDigits s = list_ex isDigit s"

text \<open>
  \<open>/\d+%|\d+\s*(million|billion|thousand)/.test(s)\<close>: some digit of \<open>s\<close> is followed
  at once by \<open>%\<close>, or, after any white space, by one of the three words (the last
  digit of the run that \<open>\d+\<close> matches is that digit; the words start with a letter, so
  \<open>\s*\<close> takes the whole run of white space).
\<close>

fun testStatistic :: "string \<Rightarrow> bool" where
  "testStatistic [] = False"
| "testStatistic (c # cs) =
     ((isDigit c \<and>
        (prefix ''%'' cs \<or>
         list_ex (\<lambda>w. prefix w (dropWhile isSpace cs)) [''million'', ''billion'', ''thousand'']))
      \<or> testStatistic cs)"

text \<open>
  \<open>s.match(/\b[A-Z]{3,}\b/g)\<close>. Both ends of a match are word boundaries and the
  characters between are word characters, so a match is a maximal run of word
  characters; it is kept when it has at least three characters, all of them upper-case
  letters. \<open>wordRuns cur s\<close> scans \<open>s\<close> from the left, \<open>cur\<close> being the run read so far.
  \<open>match\<close> returns \<open>null\<close>, here \<open>None\<close>, when nothing matches, and otherwise every
  match in order, repeated words included.
\<close>

fun wordRuns :: "string \<Rightarrow> string \<Rightarrow> string list" where
  "wordRuns cur [] = (if cur = [] then [] else [cur])"
| "wordRuns cur (c # cs) =
     (if isWordChar c then wordRuns (cur @ [c]) cs
      else (if cur = [] then [] else [cur]) @ wordRuns [] cs)"

definition allCapsWords :: "string \<Rightarrow> string list" where
  "allCapsWords s = filter (\<lambda>w. 3 \<le> length w \<and> list_all isUpper w) (wordRuns [] s)"

definition matchAllCaps :: "string \<Rightarrow> string list option" where
  "matchAllCaps s = (let ms = allCapsWords s in if ms = [] then None else Some ms)"

section \<open>The data model (types)\<close>

text \<open>
  The fields that the sources fill from the wall clock or the random generator
  (\<open>extractedAt\<close>, \<open>checkedAt\<close>, \<open>createdAt\<close>, the report's \<open>id\<close>) and the article's
  \<open>publishedAt\<close> are left out: no operation below reads them.
\<close>

record NewsArticle =
  articleId :: string
  title :: string
  content :: string
  url :: string
  source :: string
  author :: "string option"

record Claim =
  "text" :: string
  "context" :: string
  article :: NewsArticle

datatype Verdict = TRUE | FALSE | MIXED | UNVERIFIED | UNKNOWN

record FactCheckResult =
  claim :: Claim
  verdict :: Verdict
  confidence :: real
  sources :: "string list"
  explanation :: string

record Analysis =
  score :: real
  flags :: "string list"

record MisinformationReport =
  article :: NewsArticle
  claims :: "Claim list"
  factCheckResults :: "FactCheckResult list"
  overallScore :: real
  flags :: "string list"

text \<open>What a thrown exception carries, as far as the sources distinguish it.\<close>

datatype Error = NetworkError | TypeError | NlpError

text \<open>
  The reply of the fact-check endpoint to \<open>axios.get\<close>: the call throws, or it returns
  \<open>response.data.claims\<close> (absent, or a list of claims, each with its \<open>claimReview\<close>
  list, empty when absent). A review has a \<open>textualRating\<close> (absent in a malformed
  reply) and a \<open>url\<close>.
\<close>

record ClaimReview =
  textualRating :: "string option"
  reviewUrl :: string

datatype ApiReply = Throws | Data "ClaimReview list list option"

text \<open>
  The collaborators and the configuration: the API key, the remote endpoint as a
  function of the claim text, the sentence splitter of the \<open>compromise\<close> library
  (which may throw), and the threshold below which a report is stored.
\<close>

record Env =
  googleApiKey :: "string option"
  remoteApi :: "string \<Rightarrow> ApiReply"
  segmenter :: "string \<Rightarrow> Error + string list"
  minConfidenceThreshold :: real

text \<open>The calls made to the collaborators, in order.\<close>

datatype Event = CheckClaimsCall "Claim list" | StoreReportCall MisinformationReport

section \<open>NLPAnalyzer\<close>

definition claimIndicators :: "string list" where
  "claimIndicators =
     [''said'', ''says'', ''reported'', ''announced'', ''confirmed'', ''revealed'',
      ''claimed'', ''stated'', ''according to'', ''research shows'', ''studies show'',
      ''data shows'', ''statistics show'', ''experts say'', ''scientists found'']"

definition uncertaintyIndicators :: "string list" where
  "uncertaintyIndicators =
     [''allegedly'', ''supposedly'', ''reportedly'', ''rumored'', ''unconfirmed'',
      ''believed'', ''might'', ''may'', ''could'', ''possibly'', ''perhaps'']"

definition emotionalWords :: "string list" where
  "emotionalWords = [''outrage'', ''scandal'', ''crisis'', ''disaster'', ''devastating'']"

text \<open>\<open>getContext\<close>, with its default \<open>contextSize\<close> of 100.\<close>

definition getContext :: "string \<Rightarrow> string \<Rightarrow> string" where
  "getContext sentence fullText =
     (case indexOf fullText sentence of
        None \<Rightarrow> sentence
      | Some index \<Rightarrow>
          (let start = index - 100;
               end' = min (length fullText) (index + length sentence + 100)
           in take (end' - start) (drop start fullText)))"

text \<open>
  \<open>extractClaims\<close>: the sentences that hold a claim indicator or a digit, in order.
  An exception of the sentence splitter leaves the function.
\<close>

definition extractClaims :: "Env \<Rightarrow> NewsArticle \<Rightarrow> Error + Claim list" where
  "extractClaims env a =
     (case segmenter env (content a) of
        Inl e \<Rightarrow> Inl e
      | Inr sentences \<Rightarrow>
          Inr (map (\<lambda>sentence.
                      \<lparr>text = sentence, context = getContext sentence (content a), article = a\<rparr>)
                 (filter (\<lambda>sentence.
                            (let hasClaimIndicator =
                                   list_ex (\<lambda>indicator. str_includes (toLowerCase sentence) indicator)
                                     claimIndicators;
                                 hasNumbers = testDigits sentence
                             in hasClaimIndicator \<or> hasNumbers))
                    sentences)))"

text \<open>
  \<open>analyzeMisinformationIndicators\<close>: the five checks in the order of the source,
  each on the flags and the score the previous one left, then the clamp.
\<close>

definition analyzeMisinformationIndicators :: "NewsArticle \<Rightarrow> Analysis" where
  "analyzeMisinformationIndicators a =
     (let flags0 = [];
          score0 = 1;
          content' = toLowerCase (content a);
          title' = toLowerCase (title a);
          uncertaintyCount = length (filter (\<lambda>word. str_includes content' word) uncertaintyIndicators);
          (flags1, score1) =
             (if uncertaintyCount > 5
              then (flags0 @ [''High uncertainty language detected''], score0 - 0.2)
              else (flags0, score0));
          (flags2, score2) =
             (if str_includes (title a) ''!!''
                 \<or> testAnyI [''BREAKING'', ''SHOCKING'', ''UNBELIEVABLE''] title'
              then (flags1 @ [''Sensational title detected''], score1 - 0.15)
              else (flags1, score1));
          capsWords = matchAllCaps (title a);
          (flags3, score3) =
             (if (case capsWords of None \<Rightarrow> False | Some ws \<Rightarrow> length ws > 2)
              then (flags2 @ [''Excessive capitalization detected''], score2 - 0.1)
              else (flags2, score2));
          emotionalCount = length (filter (\<lambda>word. str_includes content' word) emotionalWords);
          (flags4, score4) =
             (if emotionalCount > 3
              then (flags3 @ [''High emotional language detected''], score3 - 0.1)
              else (flags3, score3));
          hasSources =
             testAnyI [''according to'', ''source'', ''research'', ''study'', ''data''] content';
          (flags5, score5) =
             (if \<not> hasSources
              then (flags4 @ [''Lack of cited sources''], score4 - 0.2)
              else (flags4, score4))
      in \<lparr>score = max 0 (min 1 score5), flags = flags5\<rparr>)"

section \<open>FactChecker\<close>

definition normalizeVerdict :: "string \<Rightarrow> Verdict" where
  "normalizeVerdict ratingText =
     (let rating = toLowerCase ratingText in
      if str_includes rating ''true'' \<or> str_includes rating ''correct''
         \<or> str_includes rating ''accurate'' then TRUE
      else if str_includes rating ''false'' \<or> str_includes rating ''incorrect''
         \<or> str_includes rating ''wrong'' then FALSE
      else if str_includes rating ''mixed'' \<or> str_includes rating ''partly''
         \<or> str_includes rating ''mostly'' then MIXED
      else if str_includes rating ''unverified'' \<or> str_includes rating ''unproven'' then UNVERIFIED
      else UNKNOWN)"

definition redFlags :: "string list" where
  "redFlags = [''conspiracy'', ''cover-up'', ''they don't want you to know'']"

definition verificationIndicators :: "string list" where
  "verificationIndicators = [''study published'', ''peer-reviewed'', ''official statement'']"

text \<open>
  \<open>heuristicFactCheck\<close>: three \<open>if\<close> statements one after the other, each on the
  confidence, verdict and flags the previous one left. \<open>flags.join('; ') || d\<close> is
  \<open>d\<close> when the joined string is empty.
\<close>

definition heuristicFactCheck :: "Claim \<Rightarrow> FactCheckResult" where
  "heuristicFactCheck c =
     (let text' = toLowerCase (text c);
          confidence0 = 0.5;
          verdict0 = UNVERIFIED;
          flags0 = [];
          hasRedFlags = list_ex (\<lambda>flag. str_includes text' flag) redFlags;
          (confidence1, verdict1, flags1) =
             (if hasRedFlags
              then (0.3, FALSE, flags0 @ [''Contains conspiracy language''])
              else (confidence0, verdict0, flags0));
          hasVerification =
             list_ex (\<lambda>indicator. str_includes text' indicator) verificationIndicators;
          (confidence2, verdict2, flags2) =
             (if hasVerification
              then (0.7, TRUE, flags1 @ [''Contains verification indicators''])
              else (confidence1, verdict1, flags1));
          hasNumbers = testStatistic text';
          hasSources = testAny [''according to'', ''source'', ''research'', ''study''] text';
          (confidence3, flags3) =
             (if hasNumbers \<and> \<not> hasSources
              then (max 0.3 (confidence2 - 0.2),
                    flags2 @ [''Contains statistics without clear sources''])
              else (confidence2, flags2));
          joined = join ''; '' flags3
      in \<lparr>claim = c, verdict = verdict2, confidence = confidence3, sources = [],
          explanation =
            (if joined = [] then ''Heuristic analysis - manual verification recommended''
             else joined)\<rparr>)"

text \<open>
  \<open>checkWithGoogleFactCheck\<close>. \<open>googleBody\<close> is the body of its \<open>try\<close>: the request
  may throw, and \<open>normalizeVerdict\<close> throws a \<open>TypeError\<close> on a rating that is absent.
  The \<open>catch\<close> turns every exception into \<open>null\<close>.
\<close>

definition googleBody :: "Env \<Rightarrow> Claim \<Rightarrow> Error + FactCheckResult option" where
  "googleBody env c =
     (case remoteApi env (text c) of
        Throws \<Rightarrow> Inl NetworkError
      | Data None \<Rightarrow> Inr None
      | Data (Some []) \<Rightarrow> Inr None
      | Data (Some (firstClaim # _)) \<Rightarrow>
          (case firstClaim of
             [] \<Rightarrow> Inr None
           | review # _ \<Rightarrow>
               (case textualRating review of
                  None \<Rightarrow> Inl TypeError
                | Some rating \<Rightarrow>
                    Inr (Some \<lparr>claim = c, verdict = normalizeVerdict rating, confidence = 0.8,
                               sources = [reviewUrl review], explanation = rating\<rparr>))))"

definition checkWithGoogleFactCheck :: "Env \<Rightarrow> Claim \<Rightarrow> Error + FactCheckResult option" where
  "checkWithGoogleFactCheck env c =
     (case googleBody env c of
        Inl error \<Rightarrow> Inr None
      | Inr r \<Rightarrow> Inr r)"

text \<open>
  \<open>checkClaim\<close>. \<open>if (this.googleApiKey)\<close> is false for an absent key and for the
  empty string. An exception of the remote check is caught and falls through to the
  heuristic, as a \<open>null\<close> result does.
\<close>

definition checkClaim :: "Env \<Rightarrow> Claim \<Rightarrow> Error + FactCheckResult" where
  "checkClaim env c =
     (if googleApiKey env \<noteq> None \<and> googleApiKey env \<noteq> Some []
      then (case checkWithGoogleFactCheck env c of
              Inr (Some result) \<Rightarrow> Inr result
            | Inr None \<Rightarrow> Inr (heuristicFactCheck c)
            | Inl error \<Rightarrow> Inr (heuristicFactCheck c))
      else Inr (heuristicFactCheck c))"

text \<open>\<open>checkClaims\<close>: one claim after the other; a claim whose check throws is skipped.\<close>

fun checkClaims :: "Env \<Rightarrow> Claim list \<Rightarrow> FactCheckResult list" where
  "checkClaims env [] = []"
| "checkClaims env (c # cs) =
     (case checkClaim env c of
        Inr result \<Rightarrow> result # checkClaims env cs
      | Inl error \<Rightarrow> checkClaims env cs)"

section \<open>GuardianService\<close>

definition calculateOverallScore :: "real \<Rightarrow> FactCheckResult list \<Rightarrow> real" where
  "calculateOverallScore nlpScore results =
     (if length results = 0 then nlpScore
      else
        (let avgFactCheckScore =
               foldl (\<lambda>sum result.
                        (let score0 = confidence result;
                             score1 = (if verdict result = FALSE then 1 - score0
                                       else if verdict result = MIXED then 0.5
                                       else score0)
                         in sum + score1))
                 0 results
               / real (length results)
         in nlpScore * 0.4 + avgFactCheckScore * 0.6))"

text \<open>
  \<open>processArticle\<close> returns the report, or \<open>None\<close> for the source's \<open>null\<close>, and the
  calls it made to the fact checker. Its \<open>catch\<close> turns an exception into \<open>null\<close>.
\<close>

definition processArticle :: "Env \<Rightarrow> NewsArticle \<Rightarrow> MisinformationReport option \<times> Event list" where
  "processArticle env a =
     (case extractClaims env a of
        Inl error \<Rightarrow> (None, [])
      | Inr cs \<Rightarrow>
          if length cs = 0 then (None, [])
          else
            (let analysis = analyzeMisinformationIndicators a;
                 results = checkClaims env cs;
                 overall = calculateOverallScore (score analysis) results
             in (Some \<lparr>article = a, claims = cs, factCheckResults = results,
                       overallScore = overall, flags = Analysis.flags analysis\<rparr>,
                 [CheckClaimsCall cs])))"

text \<open>
  The loop of \<open>runMonitoringCycle\<close> over the fetched articles: a report is pushed when
  \<open>processArticle\<close> returns one, and stored when its score is below the threshold.
\<close>

fun processAll :: "Env \<Rightarrow> NewsArticle list \<Rightarrow> MisinformationReport list \<times> Event list" where
  "processAll env [] = ([], [])"
| "processAll env (a # as) =
     (let (report, ev) = processArticle env a;
          (reports, evs) = processAll env as
      in case report of
           None \<Rightarrow> (reports, ev @ evs)
         | Some r \<Rightarrow>
             (r # reports,
              ev @ (if overallScore r < minConfidenceThreshold env then [StoreReportCall r] else [])
                 @ evs))"

definition runMonitoringCycle :: "Env \<Rightarrow> NewsArticle list \<Rightarrow> MisinformationReport list \<times> Event list" where
  "runMonitoringCycle env articles =
     (if length articles = 0 then ([], []) else processAll env articles)"

section \<open>The quantities the specification speaks of\<close>

text \<open>
  Case-insensitive containment, in the words of the specification: some window of
  \<open>s\<close>, as long as \<open>w\<close>, equals \<open>w\<close> once its letters are lowered.
\<close>

fun containsIgnoringCase :: "string \<Rightarrow> string \<Rightarrow> bool" where
  "containsIgnoringCase [] w = (w = [])"
| "containsIgnoringCase (c # cs) w =
     (toLowerCase (take (length w) (c # cs)) = w \<or> containsIgnoringCase cs w)"

text \<open>
  The directional score of one fact-check result, in the words of the specification:
  the confidence for TRUE, UNVERIFIED and UNKNOWN, its complement for FALSE, one half
  for MIXED.
\<close>

definition directionalScore :: "FactCheckResult \<Rightarrow> real" where
  "directionalScore r =
     (case verdict r of
        TRUE \<Rightarrow> confidence r
      | UNVERIFIED \<Rightarrow> confidence r
      | UNKNOWN \<Rightarrow> confidence r
      | FALSE \<Rightarrow> 1 - confidence r
      | MIXED \<Rightarrow> 0.5)"

text \<open>
  The trigger of each stylistic signal, as \<open>analyzeMisinformationIndicators\<close> tests it,
  and the penalty that goes with it.
\<close>

definition uncertaintyCount :: "NewsArticle \<Rightarrow> nat" where
  "uncertaintyCount a =
     length (filter (\<lambda>word. str_includes (toLowerCase (content a)) word) uncertaintyIndicators)"

definition sensationalTitle :: "NewsArticle \<Rightarrow> bool" where
  "sensationalTitle a =
     (str_includes (title a) ''!!''
      \<or> testAnyI [''BREAKING'', ''SHOCKING'', ''UNBELIEVABLE''] (toLowerCase (title a)))"

definition capsCount :: "NewsArticle \<Rightarrow> nat" where
  "capsCount a = length (allCapsWords (title a))"

definition emotionalCount :: "NewsArticle \<Rightarrow> nat" where
  "emotionalCount a =
     length (filter (\<lambda>word. str_includes (toLowerCase (content a)) word) emotionalWords)"

definition citesSources :: "NewsArticle \<Rightarrow> bool" where
  "citesSources a =
     testAnyI [''according to'', ''source'', ''research'', ''study'', ''data'']
       (toLowerCase (content a))"

definition uncertaintyPenalty :: "NewsArticle \<Rightarrow> real" where
  "uncertaintyPenalty a = (if 5 < uncertaintyCount a then 0.2 else 0)"

definition sensationalPenalty :: "NewsArticle \<Rightarrow> real" where
  "sensationalPenalty a = (if sensationalTitle a then 0.15 else 0)"

definition capsPenalty :: "NewsArticle \<Rightarrow> real" where
  "capsPenalty a = (if 2 < capsCount a then 0.1 else 0)"

definition emotionalPenalty :: "NewsArticle \<Rightarrow> real" where
  "emotionalPenalty a = (if 3 < emotionalCount a then 0.1 else 0)"

definition sourcesPenalty :: "NewsArticle \<Rightarrow> real" where
  "sourcesPenalty a = (if citesSources a then 0 else 0.2)"

text \<open>The conditions of the three heuristic rules on a claim text, and the flags they push.\<close>

definition containsConspiracyPhrase :: "string \<Rightarrow> bool" where
  "containsConspiracyPhrase t = list_ex (containsIgnoringCase t) redFlags"

definition containsVerificationPhrase :: "string \<Rightarrow> bool" where
  "containsVerificationPhrase t = list_ex (containsIgnoringCase t) verificationIndicators"

definition unsourcedStatistic :: "string \<Rightarrow> bool" where
  "unsourcedStatistic t =
     (testStatistic (toLowerCase t)
      \<and> \<not> testAny [''according to'', ''source'', ''research'', ''study''] (toLowerCase t))"

definition heuristicFlags :: "string \<Rightarrow> string list" where
  "heuristicFlags t =
     (if containsConspiracyPhrase t then [''Contains conspiracy language''] else [])
     @ (if containsVerificationPhrase t then [''Contains verification indicators''] else [])
     @ (if unsourcedStatistic t then [''Contains statistics without clear sources''] else [])"

text \<open>
  A reply of the remote endpoint that holds no review: no claims at all, or a first claim
  without a review (the source reads the first review of the first claim only).
\<close>

definition noMatchingReview :: "ApiReply \<Rightarrow> bool" where
  "noMatchingReview reply =
     (case reply of
        Throws \<Rightarrow> False
      | Data None \<Rightarrow> True
      | Data (Some []) \<Rightarrow> True
      | Data (Some (firstClaim # _)) \<Rightarrow> firstClaim = [])"

text \<open>
  The number of occurrences of a word in a text, and the number of occurrences of the
  words of a lexicon in a text whatever its letter case: the "hits" of the
  specification, read as occurrences.
\<close>

fun countOccurrences :: "string \<Rightarrow> string \<Rightarrow> nat" where
  "countOccurrences [] w = 0"
| "countOccurrences (c # cs) w = (if prefix w (c # cs) then 1 else 0) + countOccurrences cs w"

definition lexiconHits :: "string list \<Rightarrow> string \<Rightarrow> nat" where
  "lexiconHits lexicon s = sum_list (map (countOccurrences (toLowerCase s)) lexicon)"

section \<open>Sample inputs\<close>

definition sampleArticle :: NewsArticle where
  "sampleArticle =
     \<lparr>articleId = ''a1'', title = ''Officials comment on water quality'',
      content = ''Officials said 40% of wells were tested.'',
      url = ''https://example.org/a1'', source = ''Example News'', author = None\<rparr>"

definition sampleClaim :: Claim where
  "sampleClaim =
     \<lparr>text = ''Officials said 40% of wells were tested.'',
      context = ''Officials said 40% of wells were tested.'',
      article = sampleArticle\<rparr>"

definition trueResult :: FactCheckResult where
  "trueResult =
     \<lparr>claim = sampleClaim, verdict = TRUE, confidence = 0.8, sources = [], explanation = ''True''\<rparr>"

definition falseResult :: FactCheckResult where
  "falseResult =
     \<lparr>claim = sampleClaim, verdict = FALSE, confidence = 0.8, sources = [], explanation = ''False''\<rparr>"

definition mixedResult :: FactCheckResult where
  "mixedResult =
     \<lparr>claim = sampleClaim, verdict = MIXED, confidence = 0.9, sources = [], explanation = ''Mixed''\<rparr>"

definition conspiracyClaim :: Claim where
  "conspiracyClaim =
     \<lparr>text = ''This is a conspiracy cover-up that affects 40% of people'',
      context = ''This is a conspiracy cover-up that affects 40% of people'',
      article = sampleArticle\<rparr>"

definition mixedSignalsClaim :: Claim where
  "mixedSignalsClaim =
     \<lparr>text = ''A Peer-Reviewed paper exposes the Conspiracy'',
      context = ''A Peer-Reviewed paper exposes the Conspiracy'',
      article = sampleArticle\<rparr>"

definition sampleSegmenter :: "string \<Rightarrow> Error + string list" where
  "sampleSegmenter s = Inr (if s = [] then [] else [s])"

definition envNoKey :: Env where
  "envNoKey =
     \<lparr>googleApiKey = None, remoteApi = (\<lambda>q. Throws), segmenter = sampleSegmenter,
      minConfidenceThreshold = 0.6\<rparr>"

definition envUnreachable :: Env where
  "envUnreachable =
     \<lparr>googleApiKey = Some ''key'', remoteApi = (\<lambda>q. Throws), segmenter = sampleSegmenter,
      minConfidenceThreshold = 0.6\<rparr>"

definition envNoReview :: Env where
  "envNoReview =
     \<lparr>googleApiKey = Some ''key'', remoteApi = (\<lambda>q. Data (Some [[]])),
      segmenter = sampleSegmenter, minConfidenceThreshold = 0.6\<rparr>"

definition shoutingArticle :: NewsArticle where
  "shoutingArticle =
     \<lparr>articleId = ''a2'', title = ''WOW WOW WOW what a day'',
      content = ''According to the data it rained.'',
      url = ''https://example.org/a2'', source = ''Example News'', author = None\<rparr>"

definition repetitiveArticle :: NewsArticle where
  "repetitiveArticle =
     \<lparr>articleId = ''a3'', title = ''Quiet town'',
      content = ''Allegedly, allegedly, allegedly, allegedly, allegedly, allegedly: see the data.'',
      url = ''https://example.org/a3'', source = ''Example News'', author = None\<rparr>"

definition hedgingArticle :: NewsArticle where
  "hedgingArticle =
     \<lparr>articleId = ''a4'', title = ''Rain ahead'',
      content = ''Allegedly it might rain; reportedly it could, possibly, perhaps. See the data.'',
      url = ''https://example.org/a4'', source = ''Example News'', author = None\<rparr>"

definition quietArticle :: NewsArticle where
  "quietArticle =
     \<lparr>articleId = ''a5'', title = ''Weather'', content = ''The weather was mild.'',
      url = ''https://example.org/a5'', source = ''Example News'', author = None\<rparr>"

definition sampleReport :: MisinformationReport where
  "sampleReport =
     \<lparr>article = sampleArticle, claims = [sampleClaim],
      factCheckResults =
        [\<lparr>claim = sampleClaim, verdict = UNVERIFIED, confidence = 0.3, sources = [],
          explanation = ''Contains statistics without clear sources''\<rparr>],
      overallScore = 0.5, flags = [''Lack of cited sources'']\<rparr>"

section \<open>Strings\<close>

lemma prefix_map_take: "prefix w (map f s) \<longleftrightarrow> map f (take (length w) s) = w"
  by (metis append_eq_conv_conj prefix_def take_map append_take_drop_id)

lemma str_includes_lower:
  "str_includes (toLowerCase s) w = containsIgnoringCase s w"
proof (induction s)
  case Nil
  show ?case by (simp add: toLowerCase_def)
next
  case (Cons c cs)
  have "prefix w (map toLowerChar (c # cs)) \<longleftrightarrow> map toLowerChar (take (length w) (c # cs)) = w"
    by (rule prefix_map_take)
  then show ?case using Cons.IH by (simp add: toLowerCase_def)
qed

lemma str_includes_sublist: "str_includes s w = sublist w s"
  by (induction s) (auto simp: sublist_Cons_right)

lemma containsIgnoringCase_trans:
  "containsIgnoringCase r w \<Longrightarrow> str_includes w v \<Longrightarrow> containsIgnoringCase r v"
  unfolding str_includes_lower[symmetric] str_includes_sublist
  by (rule sublist_order.order_trans)

section \<open>Verdict normalisation\<close>

lemma normalizeVerdict_chain:
  "normalizeVerdict r =
     (if containsIgnoringCase r ''true'' \<or> containsIgnoringCase r ''correct''
         \<or> containsIgnoringCase r ''accurate''
      then TRUE
      else if containsIgnoringCase r ''false'' \<or> containsIgnoringCase r ''incorrect''
              \<or> containsIgnoringCase r ''wrong''
      then FALSE
      else if containsIgnoringCase r ''mixed'' \<or> containsIgnoringCase r ''partly''
              \<or> containsIgnoringCase r ''mostly''
      then MIXED
      else if containsIgnoringCase r ''unverified'' \<or> containsIgnoringCase r ''unproven''
      then UNVERIFIED
      else UNKNOWN)"
  unfolding normalizeVerdict_def Let_def str_includes_lower by (rule refl)

text \<open>
  The first check shadows part of the second: "incorrect" contains "correct", so a rating
  that contains it is TRUE.
\<close>

lemma normalizeVerdict_incorrect:
  assumes "containsIgnoringCase r ''incorrect''"
  shows "normalizeVerdict r = TRUE"
proof -
  have "str_includes ''incorrect'' ''correct''" by simp
  with assms have "containsIgnoringCase r ''correct''" by (rule containsIgnoringCase_trans)
  then show ?thesis by (simp add: normalizeVerdict_chain)
qed

text \<open>
  C4, as amended. The verdict of a free-text rating is found by ordered case-insensitive
  substring checks: TRUE when the rating contains "true", "correct" or "accurate"; else
  FALSE when it contains "false", "incorrect" or "wrong"; else MIXED when it contains
  "mixed", "partly" or "mostly"; else UNVERIFIED when it contains "unverified" or
  "unproven"; else UNKNOWN. A later category is never reached once an earlier one
  matches: a rating containing "mostly true" is TRUE, and a rating containing "mostly" and
  "false" is FALSE provided that it contains none of "true", "correct" and "accurate".
\<close>

theorem normalizeVerdict_ordered:
  "normalizeVerdict r =
     (if containsIgnoringCase r ''true'' \<or> containsIgnoringCase r ''correct''
         \<or> containsIgnoringCase r ''accurate''
      then TRUE
      else if containsIgnoringCase r ''false'' \<or> containsIgnoringCase r ''incorrect''
              \<or> containsIgnoringCase r ''wrong''
      then FALSE
      else if containsIgnoringCase r ''mixed'' \<or> containsIgnoringCase r ''partly''
              \<or> containsIgnoringCase r ''mostly''
      then MIXED
      else if containsIgnoringCase r ''unverified'' \<or> containsIgnoringCase r ''unproven''
      then UNVERIFIED
      else UNKNOWN)
   \<and> (containsIgnoringCase p ''mostly true'' \<longrightarrow> normalizeVerdict p = TRUE)
   \<and> (containsIgnoringCase q ''mostly'' \<and> containsIgnoringCase q ''false''
        \<and> \<not> (containsIgnoringCase q ''true'' \<or> containsIgnoringCase q ''correct''
               \<or> containsIgnoringCase q ''accurate'')
        \<longrightarrow> normalizeVerdict q = FALSE)"
proof (intro conjI impI)
  show "normalizeVerdict r =
     (if containsIgnoringCase r ''true'' \<or> containsIgnoringCase r ''correct''
         \<or> containsIgnoringCase r ''accurate''
      then TRUE
      else if containsIgnoringCase r ''false'' \<or> containsIgnoringCase r ''incorrect''
              \<or> containsIgnoringCase r ''wrong''
      then FALSE
      else if containsIgnoringCase r ''mixed'' \<or> containsIgnoringCase r ''partly''
              \<or> containsIgnoringCase r ''mostly''
      then MIXED
      else if containsIgnoringCase r ''unverified'' \<or> containsIgnoringCase r ''unproven''
      then UNVERIFIED
      else UNKNOWN)"
    by (rule normalizeVerdict_chain)
next
  assume "containsIgnoringCase p ''mostly true''"
  moreover have "str_includes ''mostly true'' ''true''" by simp
  ultimately have "containsIgnoringCase p ''true''" by (rule containsIgnoringCase_trans)
  then show "normalizeVerdict p = TRUE" by (simp add: normalizeVerdict_chain)
next
  assume "containsIgnoringCase q ''mostly'' \<and> containsIgnoringCase q ''false''
        \<and> \<not> (containsIgnoringCase q ''true'' \<or> containsIgnoringCase q ''correct''
               \<or> containsIgnoringCase q ''accurate'')"
  then show "normalizeVerdict q = FALSE" by (simp add: normalizeVerdict_chain)
qed

theorem normalizeVerdict_ordered_witness:
  "normalizeVerdict ''Unproven'' = UNVERIFIED
   \<and> containsIgnoringCase ''Mostly True'' ''mostly true''
   \<and> normalizeVerdict ''Mostly True'' = TRUE
   \<and> containsIgnoringCase ''Mostly False'' ''mostly''
   \<and> containsIgnoringCase ''Mostly False'' ''false''
   \<and> \<not> (containsIgnoringCase ''Mostly False'' ''true''
         \<or> containsIgnoringCase ''Mostly False'' ''correct''
         \<or> containsIgnoringCase ''Mostly False'' ''accurate'')
   \<and> normalizeVerdict ''Mostly False'' = FALSE"
  using normalizeVerdict_ordered [of "''Unproven''" "''Mostly True''" "''Mostly False''"]
  by code_simp

text \<open>
  The example of the claim as it was stated fails on a rating that contains "mostly",
  "false" and also "true": the first check matches and the verdict is TRUE.
\<close>

theorem normalizeVerdict_mostly_false_counterexample:
  "containsIgnoringCase ''Mostly false, not true'' ''mostly''
   \<and> containsIgnoringCase ''Mostly false, not true'' ''false''
   \<and> normalizeVerdict ''Mostly false, not true'' = TRUE
   \<and> normalizeVerdict ''Mostly false, not true'' \<noteq> FALSE"
  by code_simp

section \<open>The score combiner\<close>

lemma foldl_directional:
  "foldl (\<lambda>sum result.
            (let score0 = confidence result;
                 score1 = (if verdict result = FALSE then 1 - score0
                           else if verdict result = MIXED then 0.5
                           else score0)
             in sum + score1)) acc rs
   = acc + sum_list (map directionalScore rs)"
proof (induction rs arbitrary: acc)
  case Nil
  show ?case by simp
next
  case (Cons r rs)
  have "(if verdict r = FALSE then 1 - confidence r
         else if verdict r = MIXED then 0.5 else confidence r) = directionalScore r"
    by (cases "verdict r") (simp_all add: directionalScore_def)
  then show ?case using Cons.IH by (simp add: Let_def)
qed

lemma calculateOverallScore_nonempty:
  "rs \<noteq> [] \<Longrightarrow>
   calculateOverallScore s rs
     = 0.4 * s + 0.6 * (sum_list (map directionalScore rs) / real (length rs))"
  unfolding calculateOverallScore_def foldl_directional by simp

text \<open>
  C1. For a non-empty list of fact-check results the combined score is 0.4 times the
  stylistic score plus 0.6 times the average of the directional scores of the results
  (confidence for TRUE, UNVERIFIED and UNKNOWN, one minus the confidence for FALSE,
  0.5 for MIXED whatever its confidence). One TRUE result and one FALSE result, both
  at confidence 0.8, with a stylistic score of 0.7 give 0.58.
\<close>

theorem calculateOverallScore_weighted_average:
  "(rs \<noteq> [] \<longrightarrow>
      calculateOverallScore s rs
        = 0.4 * s + 0.6 * (sum_list (map directionalScore rs) / real (length rs)))
   \<and> (verdict m = MIXED \<longrightarrow> directionalScore m = 0.5)
   \<and> (verdict t = TRUE \<and> confidence t = 0.8 \<and> verdict f = FALSE \<and> confidence f = 0.8
        \<longrightarrow> calculateOverallScore 0.7 [t, f] = 0.58)"
proof (intro conjI impI)
  assume "rs \<noteq> []"
  then show "calculateOverallScore s rs
       = 0.4 * s + 0.6 * (sum_list (map directionalScore rs) / real (length rs))"
    by (rule calculateOverallScore_nonempty)
next
  assume "verdict m = MIXED"
  then show "directionalScore m = 0.5" by (simp add: directionalScore_def)
next
  assume h: "verdict t = TRUE \<and> confidence t = 0.8 \<and> verdict f = FALSE \<and> confidence f = 0.8"
  have "calculateOverallScore 0.7 [t, f]
        = 0.4 * 0.7 + 0.6 * (sum_list (map directionalScore [t, f]) / real (length [t, f]))"
    by (rule calculateOverallScore_nonempty) simp
  also have "\<dots> = 0.58" using h by (simp add: directionalScore_def)
  finally show "calculateOverallScore 0.7 [t, f] = 0.58" .
qed

theorem calculateOverallScore_weighted_average_witness:
  "[trueResult, falseResult] \<noteq> []
   \<and> calculateOverallScore 0.7 [trueResult, falseResult]
       = 0.4 * 0.7 + 0.6 * ((0.8 + (1 - 0.8)) / 2)
   \<and> verdict mixedResult = MIXED \<and> directionalScore mixedResult = 0.5
   \<and> verdict trueResult = TRUE \<and> confidence trueResult = 0.8
   \<and> verdict falseResult = FALSE \<and> confidence falseResult = 0.8
   \<and> calculateOverallScore 0.7 [trueResult, falseResult] = 0.58"
  using calculateOverallScore_weighted_average
    [of "[trueResult, falseResult]" "0.7" mixedResult trueResult falseResult]
  by (simp add: trueResult_def falseResult_def mixedResult_def directionalScore_def)

text \<open>
  C9. Combining a stylistic score with the empty list of fact-check results returns
  that score unchanged; with the score 0.8 the result is 0.8.
\<close>

theorem calculateOverallScore_empty:
  "calculateOverallScore s [] = s \<and> calculateOverallScore 0.8 [] = 0.8"
  by (simp add: calculateOverallScore_def)

section \<open>The heuristic fact check\<close>

lemma split_if_pair:
  "(case (if b then (x, y) else (u, v)) of (f, s) \<Rightarrow> P f s) = (if b then P x y else P u v)"
  by simp

lemma split_if_triple:
  "(case (if b then (x, y, z) else (u, v, w)) of (f, s, t) \<Rightarrow> P f s t)
     = (if b then P x y z else P u v w)"
  by simp

lemma heuristic_unfold:
  "heuristicFactCheck c =
     \<lparr>claim = c,
      verdict = (if containsVerificationPhrase (text c) then TRUE
                 else if containsConspiracyPhrase (text c) then FALSE else UNVERIFIED),
      confidence =
        (if unsourcedStatistic (text c)
         then max 0.3 ((if containsVerificationPhrase (text c) then 0.7
                 else if containsConspiracyPhrase (text c) then 0.3 else 0.5) - 0.2)
         else (if containsVerificationPhrase (text c) then 0.7
                 else if containsConspiracyPhrase (text c) then 0.3 else 0.5)),
      sources = [],
      explanation =
        (if heuristicFlags (text c) = []
         then ''Heuristic analysis - manual verification recommended''
         else join ''; '' (heuristicFlags (text c)))\<rparr>"
  unfolding heuristicFactCheck_def Let_def split_if_triple split_if_pair heuristicFlags_def
    unsourcedStatistic_def str_includes_lower
    containsConspiracyPhrase_def[symmetric] containsVerificationPhrase_def[symmetric]
  apply (cases "containsConspiracyPhrase (text c)"; cases "containsVerificationPhrase (text c)";
      cases "testStatistic (toLowerCase (text c))
      \<and> \<not> testAny [''according to'', ''source'', ''research'', ''study''] (toLowerCase (text c))")
         apply (simp_all only: if_True if_False append_Nil append_Nil2 append_Cons append_assoc)
         apply simp_all
  done

lemma heuristic_verdict:
  "verdict (heuristicFactCheck c) =
     (if containsVerificationPhrase (text c) then TRUE
      else if containsConspiracyPhrase (text c) then FALSE else UNVERIFIED)"
  by (simp add: heuristic_unfold)

lemma heuristic_confidence:
  "confidence (heuristicFactCheck c) =
        (if unsourcedStatistic (text c)
         then max 0.3 ((if containsVerificationPhrase (text c) then 0.7
                 else if containsConspiracyPhrase (text c) then 0.3 else 0.5) - 0.2)
         else (if containsVerificationPhrase (text c) then 0.7
                 else if containsConspiracyPhrase (text c) then 0.3 else 0.5))"
  by (simp add: heuristic_unfold)

lemma heuristic_sources: "sources (heuristicFactCheck c) = []"
  by (simp add: heuristic_unfold)

lemma heuristic_explanation:
  "explanation (heuristicFactCheck c) =
        (if heuristicFlags (text c) = []
         then ''Heuristic analysis - manual verification recommended''
         else join ''; '' (heuristicFlags (text c)))"
  by (simp add: heuristic_unfold)

text \<open>
  C2, as amended. A claim whose text contains a conspiracy-style phrase ("conspiracy",
  "cover-up", "they don't want you to know", in any letter case) and no
  verification-indicator phrase gets the verdict FALSE and the confidence 0.3, also after
  the unsourced-statistics adjustment, whose floor is 0.3. The verification check is a
  second \<open>if\<close>, not an \<open>else\<close>: when the text also contains "study published",
  "peer-reviewed" or "official statement", that branch is taken as well and the verdict
  is TRUE, the confidence 0.7 before the unsourced-statistics adjustment.
\<close>

theorem heuristic_conspiracy:
  "(containsConspiracyPhrase (text c) \<and> \<not> containsVerificationPhrase (text c)
      \<longrightarrow> verdict (heuristicFactCheck c) = FALSE \<and> confidence (heuristicFactCheck c) = 0.3)
   \<and> (containsConspiracyPhrase (text d) \<and> containsVerificationPhrase (text d)
      \<longrightarrow> verdict (heuristicFactCheck d) = TRUE
          \<and> confidence (heuristicFactCheck d)
              = (if unsourcedStatistic (text d) then max 0.3 (0.7 - 0.2) else 0.7))"
  by (simp add: heuristic_verdict heuristic_confidence)

lemma lower_conspiracyClaim:
  "toLowerCase (text conspiracyClaim) = ''this is a conspiracy cover-up that affects 40% of people''"
  by (simp add: conspiracyClaim_def toLowerCase_def toLowerChar_def)

lemma lower_mixedSignalsClaim:
  "toLowerCase (text mixedSignalsClaim) = ''a peer-reviewed paper exposes the conspiracy''"
  by (simp add: mixedSignalsClaim_def toLowerCase_def toLowerChar_def)

lemmas phrase_eval =
  containsConspiracyPhrase_def containsVerificationPhrase_def unsourcedStatistic_def
  str_includes_lower[symmetric] redFlags_def verificationIndicators_def testAny_def
  isDigit_def isSpace_def

theorem heuristic_conspiracy_witness:
  "containsConspiracyPhrase (text conspiracyClaim)
   \<and> \<not> containsVerificationPhrase (text conspiracyClaim)
   \<and> verdict (heuristicFactCheck conspiracyClaim) = FALSE
   \<and> confidence (heuristicFactCheck conspiracyClaim) = 0.3
   \<and> containsConspiracyPhrase (text mixedSignalsClaim)
   \<and> containsVerificationPhrase (text mixedSignalsClaim)
   \<and> verdict (heuristicFactCheck mixedSignalsClaim) = TRUE
   \<and> confidence (heuristicFactCheck mixedSignalsClaim) = 0.7"
  using heuristic_conspiracy [of conspiracyClaim mixedSignalsClaim]
  by (simp add: phrase_eval lower_conspiracyClaim lower_mixedSignalsClaim)

text \<open>
  The claim as it was stated fails on a text with a phrase of each kind: the verdict is
  TRUE and the confidence 0.7.
\<close>

theorem heuristic_conspiracy_counterexample:
  "containsConspiracyPhrase (text mixedSignalsClaim)
   \<and> containsVerificationPhrase (text mixedSignalsClaim)
   \<and> verdict (heuristicFactCheck mixedSignalsClaim) \<noteq> FALSE
   \<and> confidence (heuristicFactCheck mixedSignalsClaim) \<noteq> 0.3
   \<and> verdict (heuristicFactCheck mixedSignalsClaim) = TRUE
   \<and> confidence (heuristicFactCheck mixedSignalsClaim) = 0.7
   \<and> explanation (heuristicFactCheck mixedSignalsClaim)
       = ''Contains conspiracy language; Contains verification indicators''"
  by (simp add: heuristicFactCheck_def Let_def phrase_eval lower_mixedSignalsClaim)

section \<open>Falling back to the heuristic\<close>

lemma checkWithGoogleFactCheck_fallback:
  "remoteApi env (text c) = Throws \<or> noMatchingReview (remoteApi env (text c))
   \<Longrightarrow> checkWithGoogleFactCheck env c = Inr None"
  by (auto simp: checkWithGoogleFactCheck_def googleBody_def noMatchingReview_def
      split: ApiReply.splits option.splits list.splits)

lemma checkWithGoogleFactCheck_no_throw:
  "\<exists>r. checkWithGoogleFactCheck env c = Inr r"
  by (simp add: checkWithGoogleFactCheck_def split: sum.splits)

lemma checkClaim_returns: "\<exists>r. checkClaim env c = Inr r"
  by (simp add: checkClaim_def split: sum.splits option.splits)

text \<open>
  C5. When no API key is configured, or the remote call throws, or its reply holds no
  review, \<open>checkClaim\<close> returns (it does not throw) and what it returns is the result of
  the heuristic on the same claim, sources empty.
\<close>

theorem checkClaim_fallback:
  "googleApiKey env = None \<or> googleApiKey env = Some []
     \<or> remoteApi env (text c) = Throws \<or> noMatchingReview (remoteApi env (text c))
   \<Longrightarrow> checkClaim env c = Inr (heuristicFactCheck c)
       \<and> claim (heuristicFactCheck c) = c
       \<and> sources (heuristicFactCheck c) = []"
proof -
  assume h: "googleApiKey env = None \<or> googleApiKey env = Some []
     \<or> remoteApi env (text c) = Throws \<or> noMatchingReview (remoteApi env (text c))"
  have "checkClaim env c = Inr (heuristicFactCheck c)"
  proof (cases "googleApiKey env \<noteq> None \<and> googleApiKey env \<noteq> Some []")
    case True
    with h have "remoteApi env (text c) = Throws \<or> noMatchingReview (remoteApi env (text c))"
      by blast
    then have "checkWithGoogleFactCheck env c = Inr None"
      by (rule checkWithGoogleFactCheck_fallback)
    with True show ?thesis by (simp add: checkClaim_def)
  next
    case False
    then show ?thesis by (auto simp: checkClaim_def)
  qed
  then show ?thesis by (simp add: heuristic_unfold)
qed

theorem checkClaim_fallback_witness:
  "googleApiKey envNoKey = None
   \<and> checkClaim envNoKey conspiracyClaim = Inr (heuristicFactCheck conspiracyClaim)
   \<and> remoteApi envUnreachable (text conspiracyClaim) = Throws
   \<and> checkClaim envUnreachable conspiracyClaim = Inr (heuristicFactCheck conspiracyClaim)
   \<and> noMatchingReview (remoteApi envNoReview (text conspiracyClaim))
   \<and> checkClaim envNoReview conspiracyClaim = Inr (heuristicFactCheck conspiracyClaim)
   \<and> sources (heuristicFactCheck conspiracyClaim) = []"
  using checkClaim_fallback [of envNoKey conspiracyClaim]
    checkClaim_fallback [of envUnreachable conspiracyClaim]
    checkClaim_fallback [of envNoReview conspiracyClaim]
  by (simp add: envNoKey_def envUnreachable_def envNoReview_def noMatchingReview_def)

section \<open>The stylistic analyzer\<close>

lemma matchAllCaps_gt2:
  "(case matchAllCaps t of None \<Rightarrow> False | Some ws \<Rightarrow> length ws > 2) = (2 < length (allCapsWords t))"
  by (auto simp: matchAllCaps_def Let_def)

lemma analyze_unfold:
  "analyzeMisinformationIndicators a =
     \<lparr>score = max 0 (min 1 (1 - uncertaintyPenalty a - sensationalPenalty a - capsPenalty a
                     - emotionalPenalty a - sourcesPenalty a)),
      flags = (if 5 < uncertaintyCount a then [''High uncertainty language detected''] else [])
     @ (if sensationalTitle a then [''Sensational title detected''] else [])
     @ (if 2 < capsCount a then [''Excessive capitalization detected''] else [])
     @ (if 3 < emotionalCount a then [''High emotional language detected''] else [])
     @ (if citesSources a then [] else [''Lack of cited sources''])\<rparr>"
  unfolding analyzeMisinformationIndicators_def Let_def matchAllCaps_gt2 split_if_pair
    uncertaintyCount_def[symmetric] sensationalTitle_def[symmetric] capsCount_def[symmetric]
    emotionalCount_def[symmetric] citesSources_def[symmetric]
    uncertaintyPenalty_def sensationalPenalty_def capsPenalty_def
      emotionalPenalty_def sourcesPenalty_def
  apply (cases "5 < uncertaintyCount a"; cases "sensationalTitle a"; cases "2 < capsCount a";
      cases "3 < emotionalCount a"; cases "citesSources a")
  apply (simp_all only: if_True if_False append_Nil append_Nil2 append_Cons append_assoc)
  apply simp_all
  done

lemma analyze_flags:
  "Analysis.flags (analyzeMisinformationIndicators a) =
     (if 5 < uncertaintyCount a then [''High uncertainty language detected''] else [])
     @ (if sensationalTitle a then [''Sensational title detected''] else [])
     @ (if 2 < capsCount a then [''Excessive capitalization detected''] else [])
     @ (if 3 < emotionalCount a then [''High emotional language detected''] else [])
     @ (if citesSources a then [] else [''Lack of cited sources''])"
  by (simp add: analyze_unfold)

lemma penalties_bounds:
  "0 \<le> uncertaintyPenalty a \<and> uncertaintyPenalty a \<le> 0.2"
  "0 \<le> sensationalPenalty a \<and> sensationalPenalty a \<le> 0.15"
  "0 \<le> capsPenalty a \<and> capsPenalty a \<le> 0.1"
  "0 \<le> emotionalPenalty a \<and> emotionalPenalty a \<le> 0.1"
  "0 \<le> sourcesPenalty a \<and> sourcesPenalty a \<le> 0.2"
  by (simp_all add: uncertaintyPenalty_def sensationalPenalty_def capsPenalty_def
      emotionalPenalty_def sourcesPenalty_def)

lemma clamp_inert:
  fixes u s c e l :: real
  assumes "0 \<le> u \<and> u \<le> 0.2" "0 \<le> s \<and> s \<le> 0.15" "0 \<le> c \<and> c \<le> 0.1"
    "0 \<le> e \<and> e \<le> 0.1" "0 \<le> l \<and> l \<le> 0.2"
  shows "max 0 (min 1 (1 - u - s - c - e - l)) = 1 - u - s - c - e - l"
proof -
  have "s \<le> 3 / 20" using assms(2) by simp
  moreover have "u \<le> 1 / 5" "c \<le> 1 / 10" "e \<le> 1 / 10" "l \<le> 1 / 5"
    using assms by simp_all
  ultimately show ?thesis using assms by (simp add: max_def min_def)
qed

lemma analyze_score:
  "score (analyzeMisinformationIndicators a) =
     1 - uncertaintyPenalty a - sensationalPenalty a - capsPenalty a
       - emotionalPenalty a - sourcesPenalty a"
proof -
  have "score (analyzeMisinformationIndicators a) =
      max 0 (min 1 (1 - uncertaintyPenalty a - sensationalPenalty a - capsPenalty a
                     - emotionalPenalty a - sourcesPenalty a))"
    by (simp add: analyze_unfold)
  also have "\<dots> = 1 - uncertaintyPenalty a - sensationalPenalty a - capsPenalty a
                     - emotionalPenalty a - sourcesPenalty a"
    by (rule clamp_inert) (rule penalties_bounds)+
  finally show ?thesis .
qed

lemma analyze_score_range:
  "0 \<le> score (analyzeMisinformationIndicators a) \<and> score (analyzeMisinformationIndicators a) \<le> 1"
  by (simp add: analyze_unfold)

lemma caps_flag_iff:
  "(''Excessive capitalization detected'' \<in> set (Analysis.flags (analyzeMisinformationIndicators a)))
     = (2 < capsCount a)"
  by (simp add: analyze_flags)

lemma uncertainty_flag_iff:
  "(''High uncertainty language detected'' \<in> set (Analysis.flags (analyzeMisinformationIndicators a)))
     = (5 < uncertaintyCount a)"
  by (simp add: analyze_flags)

lemma distinct_uncertaintyIndicators: "distinct uncertaintyIndicators"
  by (simp add: uncertaintyIndicators_def)

lemma uncertaintyCount_card:
  "uncertaintyCount a
     = card {w \<in> set uncertaintyIndicators. containsIgnoringCase (content a) w}"
proof -
  have "uncertaintyCount a
      = card ({w. containsIgnoringCase (content a) w} \<inter> set uncertaintyIndicators)"
    unfolding uncertaintyCount_def str_includes_lower
    by (rule distinct_length_filter) (rule distinct_uncertaintyIndicators)
  also have "{w. containsIgnoringCase (content a) w} \<inter> set uncertaintyIndicators
      = {w \<in> set uncertaintyIndicators. containsIgnoringCase (content a) w}"
    by blast
  finally show ?thesis .
qed

lemma eval_shoutingArticle:
  "analyzeMisinformationIndicators shoutingArticle
     = \<lparr>score = 0.9, flags = [''Excessive capitalization detected'']\<rparr>"
  by code_simp

lemma eval_shouting_caps: "allCapsWords (title shoutingArticle) = [''WOW'', ''WOW'', ''WOW'']"
  by code_simp

lemma eval_repetitiveArticle:
  "analyzeMisinformationIndicators repetitiveArticle = \<lparr>score = 1, flags = []\<rparr>"
  by code_simp

lemma eval_repetitive_hits: "lexiconHits uncertaintyIndicators (content repetitiveArticle) = 6"
  by code_simp

lemma eval_hedgingArticle:
  "analyzeMisinformationIndicators hedgingArticle
     = \<lparr>score = 0.8, flags = [''High uncertainty language detected'']\<rparr>"
  by code_simp

text \<open>
  C6, as amended. The analyzer deducts 0.10 and emits "Excessive capitalization
  detected" if and only if the title holds more than 2 matches of an all-caps word of at
  least 3 letters, every occurrence counted: a word that occurs three times triggers the
  flag by itself.
\<close>

theorem caps_flag_counts_matches:
  "(''Excessive capitalization detected''
       \<in> set (Analysis.flags (analyzeMisinformationIndicators a)))
     = (2 < length (allCapsWords (title a)))
   \<and> score (analyzeMisinformationIndicators a)
       = 1 - uncertaintyPenalty a - sensationalPenalty a
           - (if 2 < length (allCapsWords (title a)) then 0.1 else 0)
           - emotionalPenalty a - sourcesPenalty a"
  using caps_flag_iff[of a] analyze_score[of a] by (simp add: capsCount_def capsPenalty_def)

theorem caps_flag_counts_matches_witness:
  "''Excessive capitalization detected''
       \<in> set (Analysis.flags (analyzeMisinformationIndicators shoutingArticle))
   \<and> 2 < length (allCapsWords (title shoutingArticle))
   \<and> score (analyzeMisinformationIndicators shoutingArticle) = 0.9"
  using caps_flag_counts_matches [of shoutingArticle]
  by (simp add: eval_shoutingArticle eval_shouting_caps)

text \<open>
  The claim as it was stated fails on a title that repeats one all-caps word three times:
  one distinct word, and the flag is emitted and 0.10 deducted.
\<close>

theorem caps_distinct_counterexample:
  "''Excessive capitalization detected''
       \<in> set (Analysis.flags (analyzeMisinformationIndicators shoutingArticle))
   \<and> score (analyzeMisinformationIndicators shoutingArticle) = 1 - 0.1
   \<and> card (set (allCapsWords (title shoutingArticle))) = 1
   \<and> \<not> 2 < card (set (allCapsWords (title shoutingArticle)))"
  by (simp add: eval_shoutingArticle eval_shouting_caps)

text \<open>
  C7, as amended. The analyzer deducts 0.20 and emits "High uncertainty language
  detected" if and only if more than 5 of the entries of the uncertainty lexicon occur in
  the content (in any letter case, as substrings); an entry counts once however often it
  occurs, so one word repeated does not trigger the penalty by itself.
\<close>

theorem uncertainty_flag_counts_entries:
  "(''High uncertainty language detected''
       \<in> set (Analysis.flags (analyzeMisinformationIndicators a)))
     = (5 < card {w \<in> set uncertaintyIndicators. containsIgnoringCase (content a) w})
   \<and> score (analyzeMisinformationIndicators a)
       = 1 - (if 5 < card {w \<in> set uncertaintyIndicators. containsIgnoringCase (content a) w}
              then 0.2 else 0)
           - sensationalPenalty a - capsPenalty a - emotionalPenalty a - sourcesPenalty a"
  using uncertainty_flag_iff[of a] analyze_score[of a]
  by (simp add: uncertaintyCount_card uncertaintyPenalty_def)

theorem uncertainty_flag_counts_entries_witness:
  "''High uncertainty language detected''
       \<in> set (Analysis.flags (analyzeMisinformationIndicators hedgingArticle))
   \<and> 5 < card {w \<in> set uncertaintyIndicators. containsIgnoringCase (content hedgingArticle) w}
   \<and> score (analyzeMisinformationIndicators hedgingArticle) = 0.8"
  using uncertainty_flag_counts_entries [of hedgingArticle]
  by (simp add: eval_hedgingArticle)

text \<open>
  The claim as it was stated fails on a content that repeats one uncertainty word six
  times: six occurrences, and neither flag nor deduction.
\<close>

theorem uncertainty_occurrences_counterexample:
  "5 < lexiconHits uncertaintyIndicators (content repetitiveArticle)
   \<and> ''High uncertainty language detected''
       \<notin> set (Analysis.flags (analyzeMisinformationIndicators repetitiveArticle))
   \<and> score (analyzeMisinformationIndicators repetitiveArticle) = 1"
  by (simp add: eval_repetitiveArticle eval_repetitive_hits)

section \<open>The pipeline\<close>

lemma heuristic_confidence_range:
  "0 \<le> confidence (heuristicFactCheck c) \<and> confidence (heuristicFactCheck c) \<le> 1"
  by (simp add: heuristic_confidence)

lemma googleBody_confidence:
  "googleBody env c = Inr (Some r) \<Longrightarrow> confidence r = 0.8"
  by (auto simp: googleBody_def split: ApiReply.splits option.splits list.splits)

lemma checkClaim_confidence_range:
  assumes "checkClaim env c = Inr r"
  shows "0 \<le> confidence r \<and> confidence r \<le> 1"
proof (cases "r = heuristicFactCheck c")
  case True
  then show ?thesis by (simp add: heuristic_confidence_range)
next
  case False
  with assms have "googleBody env c = Inr (Some r)"
    by (auto simp: checkClaim_def checkWithGoogleFactCheck_def
        split: if_splits sum.splits option.splits)
  then have "confidence r = 0.8" by (rule googleBody_confidence)
  then show ?thesis by simp
qed

lemma checkClaims_confidence_range:
  "\<forall>r\<in>set (checkClaims env cs). 0 \<le> confidence r \<and> confidence r \<le> 1"
proof (induction cs)
  case Nil
  show ?case by simp
next
  case (Cons c cs)
  obtain r where r: "checkClaim env c = Inr r" using checkClaim_returns by blast
  then have "0 \<le> confidence r \<and> confidence r \<le> 1" by (rule checkClaim_confidence_range)
  with r Cons.IH show ?case by simp
qed

lemma directionalScore_range:
  "0 \<le> confidence r \<and> confidence r \<le> 1 \<Longrightarrow> 0 \<le> directionalScore r \<and> directionalScore r \<le> 1"
  by (cases "verdict r") (simp_all add: directionalScore_def)

lemma sum_list_unit_bounds:
  fixes f :: "'a \<Rightarrow> real"
  shows "\<forall>x\<in>set xs. 0 \<le> f x \<and> f x \<le> 1 \<Longrightarrow>
         0 \<le> sum_list (map f xs) \<and> sum_list (map f xs) \<le> real (length xs)"
  by (induction xs) auto

lemma calculateOverallScore_range:
  assumes s: "0 \<le> s \<and> s \<le> 1"
    and rs: "\<forall>r\<in>set rs. 0 \<le> confidence r \<and> confidence r \<le> 1"
  shows "0 \<le> calculateOverallScore s rs \<and> calculateOverallScore s rs \<le> 1"
proof (cases "rs = []")
  case True
  with s show ?thesis by (simp add: calculateOverallScore_def)
next
  case False
  let ?avg = "sum_list (map directionalScore rs) / real (length rs)"
  from rs have "\<forall>r\<in>set rs. 0 \<le> directionalScore r \<and> directionalScore r \<le> 1"
    using directionalScore_range by blast
  then have b: "0 \<le> sum_list (map directionalScore rs)
      \<and> sum_list (map directionalScore rs) \<le> real (length rs)"
    by (rule sum_list_unit_bounds)
  from False have pos: "0 < real (length rs)" by simp
  have avg: "0 \<le> ?avg \<and> ?avg \<le> 1" using b pos by (simp add: divide_le_eq)
  have eq: "calculateOverallScore s rs = 0.4 * s + 0.6 * ?avg"
    using False by (rule calculateOverallScore_nonempty)
  show ?thesis unfolding eq using s avg by simp
qed

lemma processArticle_Some:
  assumes "processArticle env a = (Some r, ev)"
  shows "\<exists>cs. extractClaims env a = Inr cs \<and> cs \<noteq> []
           \<and> r = \<lparr>article = a, claims = cs, factCheckResults = checkClaims env cs,
                  overallScore =
                    calculateOverallScore (score (analyzeMisinformationIndicators a))
                      (checkClaims env cs),
                  flags = Analysis.flags (analyzeMisinformationIndicators a)\<rparr>
           \<and> ev = [CheckClaimsCall cs]"
  using assms
  by (auto simp: processArticle_def Let_def split: sum.splits if_splits)

lemma processArticle_None:
  "extractClaims env a = Inr [] \<Longrightarrow> processArticle env a = (None, [])"
  by (simp add: processArticle_def)

lemma extractClaims_article:
  "extractClaims env a = Inr cs \<Longrightarrow> \<forall>c\<in>set cs. Claim.article c = a"
  by (auto simp: extractClaims_def split: sum.splits)

lemma processAll_reports:
  "r \<in> set (fst (processAll env as))
   \<Longrightarrow> \<exists>a\<in>set as. \<exists>ev. processArticle env a = (Some r, ev)"
proof (induction as)
  case Nil
  then show ?case by simp
next
  case (Cons a as)
  obtain rep ev where p: "processArticle env a = (rep, ev)" by (cases "processArticle env a")
  obtain reps evs where q: "processAll env as = (reps, evs)" by (cases "processAll env as")
  show ?case
  proof (cases rep)
    case None
    with p q Cons.prems have "r \<in> set (fst (processAll env as))" by simp
    then show ?thesis using Cons.IH by auto
  next
    case (Some r')
    with p q Cons.prems have "r = r' \<or> r \<in> set (fst (processAll env as))" by auto
    then show ?thesis
    proof
      assume "r = r'"
      with p Some show ?thesis by auto
    next
      assume "r \<in> set (fst (processAll env as))"
      then show ?thesis using Cons.IH by auto
    qed
  qed
qed

lemma processAll_check_calls:
  "CheckClaimsCall cs \<in> set (snd (processAll env as))
   \<Longrightarrow> \<exists>a\<in>set as. \<exists>r. processArticle env a = (Some r, [CheckClaimsCall cs])"
proof (induction as)
  case Nil
  then show ?case by simp
next
  case (Cons a as)
  obtain rep ev where p: "processArticle env a = (rep, ev)" by (cases "processArticle env a")
  obtain reps evs where q: "processAll env as = (reps, evs)" by (cases "processAll env as")
  show ?case
  proof (cases rep)
    case None
    with p have "ev = []" by (auto simp: processArticle_def Let_def split: sum.splits if_splits)
    with None p q Cons.prems have "CheckClaimsCall cs \<in> set (snd (processAll env as))" by simp
    then show ?thesis using Cons.IH by auto
  next
    case (Some r')
    with p obtain cs' where ev: "ev = [CheckClaimsCall cs']"
      using processArticle_Some by blast
    from Some p q Cons.prems ev
    have "cs = cs' \<or> CheckClaimsCall cs \<in> set (snd (processAll env as))"
      by (auto split: if_splits)
    then show ?thesis
    proof
      assume "cs = cs'"
      with p Some ev show ?thesis by auto
    next
      assume "CheckClaimsCall cs \<in> set (snd (processAll env as))"
      then show ?thesis using Cons.IH by auto
    qed
  qed
qed

lemma runMonitoringCycle_processAll: "runMonitoringCycle env as = processAll env as"
  by (cases as) (simp_all add: runMonitoringCycle_def)

lemma checkClaims_without_key:
  "googleApiKey env = None \<or> googleApiKey env = Some []
   \<Longrightarrow> checkClaims env cs = map heuristicFactCheck cs"
  by (induction cs) (auto simp: checkClaim_def)

lemma analyze_flags_not_heuristic:
  "''Contains conspiracy language'' \<notin> set (Analysis.flags (analyzeMisinformationIndicators a))
   \<and> ''Contains verification indicators''
        \<notin> set (Analysis.flags (analyzeMisinformationIndicators a))
   \<and> ''Contains statistics without clear sources''
        \<notin> set (Analysis.flags (analyzeMisinformationIndicators a))"
  by (simp add: analyze_flags)

lemma eval_extract_quiet: "extractClaims envNoKey quietArticle = Inr []"
  by code_simp

lemma eval_process_sample:
  "processArticle envNoKey sampleArticle = (Some sampleReport, [CheckClaimsCall [sampleClaim]])"
  by code_simp

lemma eval_cycle:
  "runMonitoringCycle envNoKey [quietArticle, sampleArticle]
     = ([sampleReport], [CheckClaimsCall [sampleClaim], StoreReportCall sampleReport])"
  by code_simp

lemma eval_analyze_sample:
  "analyzeMisinformationIndicators sampleArticle
     = \<lparr>score = 0.8, flags = [''Lack of cited sources'']\<rparr>"
  by code_simp

text \<open>
  C3. The stylistic score of every article lies in [0,1]. The combined score lies in
  [0,1] whenever the stylistic score and the confidences do, and the confidences of the
  fact-check results of a report that the pipeline produced always do; so the overall
  score of every such report, from one article or in a batch, lies in [0,1].
\<close>

theorem scores_in_unit_interval:
  "0 \<le> score (analyzeMisinformationIndicators a)
   \<and> score (analyzeMisinformationIndicators a) \<le> 1
   \<and> (0 \<le> s \<and> s \<le> 1 \<and> (\<forall>x\<in>set rs. 0 \<le> confidence x \<and> confidence x \<le> 1)
        \<longrightarrow> 0 \<le> calculateOverallScore s rs \<and> calculateOverallScore s rs \<le> 1)
   \<and> (processArticle env b = (Some r, ev)
        \<longrightarrow> (\<forall>x\<in>set (factCheckResults r). 0 \<le> confidence x \<and> confidence x \<le> 1)
            \<and> 0 \<le> overallScore r \<and> overallScore r \<le> 1)
   \<and> (\<forall>p\<in>set (fst (runMonitoringCycle env arts)). 0 \<le> overallScore p \<and> overallScore p \<le> 1)"
proof -
  have report: "(\<forall>x\<in>set (factCheckResults p). 0 \<le> confidence x \<and> confidence x \<le> 1)
            \<and> 0 \<le> overallScore p \<and> overallScore p \<le> 1"
    if "processArticle env' a' = (Some p, ev')" for env' a' p ev'
  proof -
    from that obtain cs where
      p: "p = \<lparr>article = a', claims = cs, factCheckResults = checkClaims env' cs,
              overallScore =
                calculateOverallScore (score (analyzeMisinformationIndicators a'))
                  (checkClaims env' cs),
              flags = Analysis.flags (analyzeMisinformationIndicators a')\<rparr>"
      using processArticle_Some by blast
    have c: "\<forall>x\<in>set (checkClaims env' cs). 0 \<le> confidence x \<and> confidence x \<le> 1"
      by (rule checkClaims_confidence_range)
    have "0 \<le> calculateOverallScore (score (analyzeMisinformationIndicators a'))
                  (checkClaims env' cs)
        \<and> calculateOverallScore (score (analyzeMisinformationIndicators a'))
                  (checkClaims env' cs) \<le> 1"
      using analyze_score_range c by (rule calculateOverallScore_range)
    with c show ?thesis by (simp add: p)
  qed
  have cycle: "0 \<le> overallScore p \<and> overallScore p \<le> 1"
    if "p \<in> set (fst (runMonitoringCycle env arts))" for p
  proof -
    from that obtain a' ev' where "processArticle env a' = (Some p, ev')"
      unfolding runMonitoringCycle_processAll using processAll_reports by blast
    then show ?thesis using report by blast
  qed
  show ?thesis
    using analyze_score_range[of a] calculateOverallScore_range[of s rs] report[of env b r ev] cycle
    by blast
qed

theorem scores_in_unit_interval_witness:
  "0 \<le> score (analyzeMisinformationIndicators sampleArticle)
   \<and> score (analyzeMisinformationIndicators sampleArticle) \<le> 1
   \<and> 0 \<le> confidence trueResult \<and> confidence trueResult \<le> 1
   \<and> 0 \<le> confidence falseResult \<and> confidence falseResult \<le> 1
   \<and> 0 \<le> calculateOverallScore 0.7 [trueResult, falseResult]
   \<and> calculateOverallScore 0.7 [trueResult, falseResult] \<le> 1
   \<and> processArticle envNoKey sampleArticle = (Some sampleReport, [CheckClaimsCall [sampleClaim]])
   \<and> 0 \<le> overallScore sampleReport \<and> overallScore sampleReport \<le> 1
   \<and> sampleReport \<in> set (fst (runMonitoringCycle envNoKey [quietArticle, sampleArticle]))"
  using scores_in_unit_interval [of sampleArticle "0.7" "[trueResult, falseResult]" envNoKey
      sampleArticle sampleReport "[CheckClaimsCall [sampleClaim]]" "[quietArticle, sampleArticle]"]
  by (simp add: eval_process_sample eval_cycle trueResult_def falseResult_def)

text \<open>
  C8. An article from which no claim is extracted gives no report: \<open>processArticle\<close>
  returns nothing and calls nothing, no report of a batch is a report for that article,
  and every call of the fact checker in the batch is on a non-empty list of claims of
  other articles.
\<close>

theorem no_claims_no_report:
  "extractClaims env a = Inr []
   \<Longrightarrow> processArticle env a = (None, [])
       \<and> (\<forall>r\<in>set (fst (runMonitoringCycle env arts)). MisinformationReport.article r \<noteq> a)
       \<and> (\<forall>cs. CheckClaimsCall cs \<in> set (snd (runMonitoringCycle env arts))
              \<longrightarrow> cs \<noteq> [] \<and> (\<forall>c\<in>set cs. Claim.article c \<noteq> a))"
proof (intro conjI ballI allI impI)
  assume e: "extractClaims env a = Inr []"
  then show "processArticle env a = (None, [])" by (rule processArticle_None)
  {
    fix r assume "r \<in> set (fst (runMonitoringCycle env arts))"
    then obtain a' ev where "processArticle env a' = (Some r, ev)"
      unfolding runMonitoringCycle_processAll using processAll_reports by blast
    then obtain cs where "extractClaims env a' = Inr cs" "cs \<noteq> []"
      and "MisinformationReport.article r = a'"
      using processArticle_Some by fastforce
    with e show "MisinformationReport.article r \<noteq> a" by auto
  }
  {
    fix cs assume "CheckClaimsCall cs \<in> set (snd (runMonitoringCycle env arts))"
    then obtain a' r where "processArticle env a' = (Some r, [CheckClaimsCall cs])"
      unfolding runMonitoringCycle_processAll using processAll_check_calls by blast
    then have x: "extractClaims env a' = Inr cs" and ne: "cs \<noteq> []"
      using processArticle_Some by fastforce+
    from ne show "cs \<noteq> []" .
    fix c assume "c \<in> set cs"
    with x have "Claim.article c = a'" using extractClaims_article by blast
    moreover from x ne e have "a' \<noteq> a" by auto
    ultimately show "Claim.article c \<noteq> a" by simp
  }
qed

theorem no_claims_no_report_witness:
  "extractClaims envNoKey quietArticle = Inr []
   \<and> processArticle envNoKey quietArticle = (None, [])
   \<and> fst (runMonitoringCycle envNoKey [quietArticle, sampleArticle]) = [sampleReport]
   \<and> MisinformationReport.article sampleReport \<noteq> quietArticle
   \<and> snd (runMonitoringCycle envNoKey [quietArticle, sampleArticle])
       = [CheckClaimsCall [sampleClaim], StoreReportCall sampleReport]
   \<and> Claim.article sampleClaim \<noteq> quietArticle"
  using no_claims_no_report [OF eval_extract_quiet, of "[quietArticle, sampleArticle]"]
  by (simp add: eval_cycle eval_extract_quiet)

text \<open>
  C10. The flags of a report are the flags of the stylistic analyzer for its article; the
  three flags of the heuristic fact check are never among them. The explanation of a
  heuristic result is its fired flags joined by "; ", or "Heuristic analysis - manual
  verification recommended" when none fired; without an API key that is the explanation
  of every result of the report.
\<close>

theorem report_flags_are_stylistic:
  "(processArticle env a = (Some r, ev)
      \<longrightarrow> MisinformationReport.flags r = Analysis.flags (analyzeMisinformationIndicators a)
          \<and> ''Contains conspiracy language'' \<notin> set (MisinformationReport.flags r)
          \<and> ''Contains verification indicators'' \<notin> set (MisinformationReport.flags r)
          \<and> ''Contains statistics without clear sources'' \<notin> set (MisinformationReport.flags r))
   \<and> explanation (heuristicFactCheck c)
       = (if heuristicFlags (text c) = []
          then ''Heuristic analysis - manual verification recommended''
          else join ''; '' (heuristicFlags (text c)))
   \<and> (processArticle env a = (Some r, ev)
        \<and> (googleApiKey env = None \<or> googleApiKey env = Some [])
      \<longrightarrow> (\<forall>x\<in>set (factCheckResults r).
             explanation x
               = (if heuristicFlags (text (claim x)) = []
                  then ''Heuristic analysis - manual verification recommended''
                  else join ''; '' (heuristicFlags (text (claim x))))))"
proof (intro conjI impI ballI)
  assume p: "processArticle env a = (Some r, ev)"
  then show f: "MisinformationReport.flags r = Analysis.flags (analyzeMisinformationIndicators a)"
    using processArticle_Some by fastforce
  show "''Contains conspiracy language'' \<notin> set (MisinformationReport.flags r)"
    "''Contains verification indicators'' \<notin> set (MisinformationReport.flags r)"
    "''Contains statistics without clear sources'' \<notin> set (MisinformationReport.flags r)"
    unfolding f using analyze_flags_not_heuristic[of a] by simp_all
next
  show "explanation (heuristicFactCheck c)
       = (if heuristicFlags (text c) = []
          then ''Heuristic analysis - manual verification recommended''
          else join ''; '' (heuristicFlags (text c)))"
    by (rule heuristic_explanation)
next
  fix x
  assume h: "processArticle env a = (Some r, ev)
        \<and> (googleApiKey env = None \<or> googleApiKey env = Some [])"
    and x: "x \<in> set (factCheckResults r)"
  from h obtain cs where "factCheckResults r = checkClaims env cs"
    using processArticle_Some by fastforce
  with h have "factCheckResults r = map heuristicFactCheck cs"
    by (simp add: checkClaims_without_key)
  with x obtain c' where "x = heuristicFactCheck c'" by auto
  then show "explanation x
               = (if heuristicFlags (text (claim x)) = []
                  then ''Heuristic analysis - manual verification recommended''
                  else join ''; '' (heuristicFlags (text (claim x))))"
    by (simp add: heuristic_unfold)
qed

lemma eval_mixed_flags:
  "heuristicFlags (text mixedSignalsClaim)
     = [''Contains conspiracy language'', ''Contains verification indicators'']"
  by code_simp

lemma eval_envNoKey: "googleApiKey envNoKey = None"
  by (simp add: envNoKey_def)

theorem report_flags_are_stylistic_witness:
  "processArticle envNoKey sampleArticle = (Some sampleReport, [CheckClaimsCall [sampleClaim]])
   \<and> googleApiKey envNoKey = None
   \<and> MisinformationReport.flags sampleReport = [''Lack of cited sources'']
   \<and> Analysis.flags (analyzeMisinformationIndicators sampleArticle) = [''Lack of cited sources'']
   \<and> map explanation (factCheckResults sampleReport)
       = [''Contains statistics without clear sources'']
   \<and> explanation (heuristicFactCheck mixedSignalsClaim)
       = ''Contains conspiracy language; Contains verification indicators''"
  using report_flags_are_stylistic [of envNoKey sampleArticle sampleReport
      "[CheckClaimsCall [sampleClaim]]" mixedSignalsClaim]
  by (simp add: eval_process_sample eval_analyze_sample eval_mixed_flags eval_envNoKey
      sampleReport_def)

end
